theory Spec2Isabelle
  imports Complex_Main
begin

section \<open>Tree census QC service: the model\<close>

text \<open>
  The program is one Flask module, \<^verbatim>\<open>Flakapp_Tree_Cencus.py\<close>: a module-level dictionary
  \<^verbatim>\<open>species_coeffs\<close> and the handlers \<^verbatim>\<open>qc\<close>, \<^verbatim>\<open>get_species\<close> and \<^verbatim>\<open>health\<close>.

  Conventions of the embedding:
  \<^item> Python floats are modelled as \<^typ>\<open>real\<close>: the arithmetic is the exact one, without the
    rounding error of IEEE doubles. The two can differ in the reported tenth where the exact
    value lies half-way between two tenths, the double lying on one side or the other; so
    the statements about reported values speak of a nearest tenth, of bounds and of the
    format, and none depends on how the model decides a tie.
  \<^item> OpenCV and \<^verbatim>\<open>os.path.exists\<close> are libraries outside the module. They are the fields
    of the record \<open>world\<close>, about which nothing is assumed.
  \<^item> Every call that leaves the module is logged in a trace of events, so that statements
    of the kind "the file is never decoded" can be made.
  \<^item> The module-level dictionary is threaded through the handlers as explicit state.
  \<^item> The request body is the pair of its two keys; a key that is absent from the JSON object
    is \<open>None\<close>. Values that are present are JSON strings.
\<close>

subsection \<open>Data\<close>

type_synonym ndarray = "nat list list list"

type_synonym contour = "(int \<times> int) list"

datatype color_code = COLOR_BGR2GRAY

datatype retrieval_mode = RETR_EXTERNAL

datatype approx_method = CHAIN_APPROX_SIMPLE

record world =
  os_path_exists :: "string \<Rightarrow> bool"
  cv2_imread :: "string \<Rightarrow> ndarray option"
  cv2_cvtColor :: "ndarray \<Rightarrow> color_code \<Rightarrow> ndarray"
  cv2_GaussianBlur :: "ndarray \<Rightarrow> nat \<times> nat \<Rightarrow> real \<Rightarrow> ndarray"
  cv2_Canny :: "ndarray \<Rightarrow> real \<Rightarrow> real \<Rightarrow> ndarray"
  cv2_findContours :: "ndarray \<Rightarrow> retrieval_mode \<Rightarrow> approx_method \<Rightarrow> contour list \<times> int list list"
  cv2_contourArea :: "contour \<Rightarrow> real"
  cv2_minEnclosingCircle :: "contour \<Rightarrow> (real \<times> real) \<times> real"

datatype event =
    Ev_exists string
  | Ev_imread string
  | Ev_cvtColor
  | Ev_GaussianBlur
  | Ev_Canny
  | Ev_findContours
  | Ev_contourArea contour
  | Ev_minEnclosingCircle contour

record coeffs =
  height_coeffs :: "real \<times> real"
  canopy_coeffs :: "real \<times> real"

type_synonym table = "(string \<times> coeffs) list"

record request =
  image_path :: "string option"
  species :: "string option"

record result =
  dbh :: real
  girth :: real
  height :: real
  canopy :: real

datatype exn = KeyError | ZeroDivisionError | TypeError

text \<open>
  A handler answers with a JSON body of measurements, with \<^verbatim>\<open>jsonify(error=msg), status\<close>,
  or it raises, which Flask turns into an internal server error.
\<close>

datatype response = Ok result | Error string nat | Raised exn

subsection \<open>The coefficient table (lines 13 to 20)\<close>

definition species_coeffs :: table where
  "species_coeffs =
    [(''Silver maple'', \<lparr>height_coeffs = (1.50, 1.778), canopy_coeffs = (0.82, 1.995)\<rparr>),
     (''Ginkgo'', \<lparr>height_coeffs = (1.71, 1.465), canopy_coeffs = (0.63, 1.989)\<rparr>),
     (''Oak'', \<lparr>height_coeffs = (1.30, 1.50), canopy_coeffs = (0.70, 1.20)\<rparr>),
     (''Maple'', \<lparr>height_coeffs = (1.50, 1.70), canopy_coeffs = (0.80, 2.00)\<rparr>),
     (''Pine'', \<lparr>height_coeffs = (0.80, 1.25), canopy_coeffs = (0.50, 1.40)\<rparr>),
     (''Default'', \<lparr>height_coeffs = (1.00, 1.200), canopy_coeffs = (0.50, 1.500)\<rparr>)]"

subsection \<open>Python built-ins used by the handler\<close>

text \<open>\<^verbatim>\<open>d[k]\<close> raises \<^verbatim>\<open>KeyError\<close> on a missing key; \<^verbatim>\<open>d.get(k, default)\<close> does not.\<close>

definition dict_item :: "('k \<times> 'v) list \<Rightarrow> 'k \<Rightarrow> exn + 'v" where
  "dict_item d k = (case map_of d k of None \<Rightarrow> Inl KeyError | Some v \<Rightarrow> Inr v)"

definition dict_get :: "('k \<times> 'v) list \<Rightarrow> 'k \<Rightarrow> 'v \<Rightarrow> 'v" where
  "dict_get d k dflt = (case map_of d k of None \<Rightarrow> dflt | Some v \<Rightarrow> v)"

text \<open>
  \<^verbatim>\<open>max(items, key=f)\<close> walks the items once, keeps the current maximum and replaces it
  only by an item whose key is strictly greater.
\<close>

fun max_from :: "('a \<Rightarrow> real) \<Rightarrow> 'a \<Rightarrow> 'a list \<Rightarrow> 'a" where
  "max_from key maxitem [] = maxitem"
| "max_from key maxitem (item # items) =
     (if key maxitem < key item then max_from key item items
      else max_from key maxitem items)"

text \<open>
  \<^verbatim>\<open>x ** y\<close> on floats: \<^verbatim>\<open>x ** 0.0\<close> is 1.0, \<^verbatim>\<open>0.0 ** y\<close> raises for negative \<open>y\<close>,
  a negative base with a non-integral exponent gives a complex number, and a negative base
  with an integral exponent gives the signed power.
\<close>

datatype pynum = PyFloat real | PyComplex

definition float_pow :: "real \<Rightarrow> real \<Rightarrow> exn + pynum" where
  "float_pow x y =
    (if y = 0 then Inr (PyFloat 1)
     else if x = 0 then (if y < 0 then Inl ZeroDivisionError else Inr (PyFloat 0))
     else if x < 0 then
       (if of_int \<lfloor>y\<rfloor> = y
        then Inr (PyFloat ((if even \<lfloor>y\<rfloor> then 1 else - 1) * (\<bar>x\<bar> powr y)))
        else Inr PyComplex)
     else Inr (PyFloat (x powr y)))"

fun float_mul :: "real \<Rightarrow> pynum \<Rightarrow> pynum" where
  "float_mul a (PyFloat v) = PyFloat (a * v)"
| "float_mul a PyComplex = PyComplex"

text \<open>
  \<^verbatim>\<open>round(x, ndigits)\<close> on a float rounds to the nearest multiple of \<open>10 ^ - ndigits\<close>,
  a tie going to the even multiple. A complex number has no \<^verbatim>\<open>__round__\<close>.
\<close>

definition round_half_even :: "real \<Rightarrow> int" where
  "round_half_even x =
    (let f = \<lfloor>x\<rfloor>; d = x - of_int f
     in if d < 1 / 2 then f else if 1 / 2 < d then f + 1 else if even f then f else f + 1)"

definition float_round :: "real \<Rightarrow> nat \<Rightarrow> real" where
  "float_round x ndigits = of_int (round_half_even (x * 10 ^ ndigits)) / 10 ^ ndigits"

fun py_round :: "pynum \<Rightarrow> nat \<Rightarrow> exn + real" where
  "py_round (PyFloat v) ndigits = Inr (float_round v ndigits)"
| "py_round PyComplex ndigits = Inl TypeError"

subsection \<open>The handler \<^verbatim>\<open>qc\<close> (lines 22 to 106)\<close>

text \<open>Lines 57 to 67: grey scale, blur, edges, external contours.\<close>

definition find_trunk_contours :: "world \<Rightarrow> ndarray \<Rightarrow> contour list" where
  "find_trunk_contours w img =
    (let gray = cv2_cvtColor w img COLOR_BGR2GRAY;
         blurred = cv2_GaussianBlur w gray (5, 5) 0;
         edges = cv2_Canny w blurred 100 200
     in fst (cv2_findContours w edges RETR_EXTERNAL CHAIN_APPROX_SIMPLE))"

text \<open>Lines 77 to 106: from the radius in pixels to the rounded measurements.\<close>

definition measurements :: "table \<Rightarrow> string \<Rightarrow> real \<Rightarrow> exn + result" where
  "measurements tbl sp radius =
    (let pixel_diameter = 2 * radius;
         scale_cm_per_pixel = 0.1;
         dbh_cm = pixel_diameter * scale_cm_per_pixel;
         girth_cm = pi * dbh_cm
     in case dict_item tbl ''Default'' of
          Inl e \<Rightarrow> Inl e
        | Inr dflt \<Rightarrow>
            (let cf = dict_get tbl sp dflt;
                 (a_h, b_h) = height_coeffs cf;
                 (a_c, b_c) = canopy_coeffs cf
             in case float_pow dbh_cm b_h of
                  Inl e \<Rightarrow> Inl e
                | Inr ph \<Rightarrow>
                    (case float_pow dbh_cm b_c of
                       Inl e \<Rightarrow> Inl e
                     | Inr pc \<Rightarrow>
                         (let height_m = float_mul a_h ph;
                              canopy_m = float_mul a_c pc
                          in case py_round height_m 1 of
                               Inl e \<Rightarrow> Inl e
                             | Inr h \<Rightarrow>
                                 (case py_round canopy_m 1 of
                                    Inl e \<Rightarrow> Inl e
                                  | Inr c \<Rightarrow>
                                      Inr \<lparr>dbh = float_round dbh_cm 1,
                                           girth = float_round girth_cm 1,
                                           height = h,
                                           canopy = c\<rparr>)))))"

text \<open>The trace of the calls made on an image that was loaded (lines 58 to 67).\<close>

definition pipeline_events :: "string \<Rightarrow> event list" where
  "pipeline_events p =
    [Ev_exists p, Ev_imread p, Ev_cvtColor, Ev_GaussianBlur, Ev_Canny, Ev_findContours]"

definition qc :: "world \<Rightarrow> table \<Rightarrow> request \<Rightarrow> response \<times> event list \<times> table" where
  "qc w tbl rq =
    (let sp = (case species rq of None \<Rightarrow> ''Default'' | Some s \<Rightarrow> s)
     in case image_path rq of
          None \<Rightarrow> (Error ''No image_path provided'' 400, [], tbl)
        | Some p \<Rightarrow>
            if p = [] then (Error ''No image_path provided'' 400, [], tbl)
            else if \<not> os_path_exists w p
            then (Error (''Image not found: '' @ p) 400, [Ev_exists p], tbl)
            else (case cv2_imread w p of
                    None \<Rightarrow> (Error ''Failed to load image'' 400, [Ev_exists p, Ev_imread p], tbl)
                  | Some img \<Rightarrow>
                      (case find_trunk_contours w img of
                         [] \<Rightarrow> (Error ''No trunk contour found in image'' 400,
                                pipeline_events p, tbl)
                       | c # cs \<Rightarrow>
                           (let trunk_contour = max_from (cv2_contourArea w) c cs;
                                radius = snd (cv2_minEnclosingCircle w trunk_contour);
                                tr = pipeline_events p @ map Ev_contourArea (c # cs)
                                       @ [Ev_minEnclosingCircle trunk_contour]
                            in case measurements tbl sp radius of
                                 Inl e \<Rightarrow> (Raised e, tr, tbl)
                               | Inr r \<Rightarrow> (Ok r, tr, tbl)))))"

subsection \<open>The other handlers (lines 108 to 119) and the service\<close>

datatype call = POST_qc request | GET_species | GET_health

datatype reply =
    Qc_reply response
  | Species_reply "string list" table
  | Health_reply string string

definition get_species :: "table \<Rightarrow> reply \<times> event list \<times> table" where
  "get_species tbl = (Species_reply (map fst tbl) tbl, [], tbl)"

definition health :: "table \<Rightarrow> reply \<times> event list \<times> table" where
  "health tbl = (Health_reply ''healthy'' ''Tree Census QC Tool'', [], tbl)"

fun dispatch :: "world \<Rightarrow> call \<Rightarrow> table \<Rightarrow> reply \<times> event list \<times> table" where
  "dispatch w (POST_qc rq) tbl = (case qc w tbl rq of (r, tr, tbl') \<Rightarrow> (Qc_reply r, tr, tbl'))"
| "dispatch w GET_species tbl = get_species tbl"
| "dispatch w GET_health tbl = health tbl"

text \<open>
  A run of the service: the requests arrive one after the other, each with the world as it
  is when the request is handled, and each handler starts from the table its predecessor
  left.
\<close>

fun serve :: "(world \<times> call) list \<Rightarrow> table \<Rightarrow> (reply \<times> event list) list \<times> table" where
  "serve [] tbl = ([], tbl)"
| "serve ((w, c) # rest) tbl =
     (case dispatch w c tbl of
        (r, tr, tbl') \<Rightarrow> (case serve rest tbl' of (rs, tbl'') \<Rightarrow> ((r, tr) # rs, tbl'')))"

subsection \<open>The error kinds of the specification, as the responses of the code\<close>

definition MissingInput :: response where
  "MissingInput = Error ''No image_path provided'' 400"

definition NotFound :: "string \<Rightarrow> response" where
  "NotFound p = Error (''Image not found: '' @ p) 400"

definition DecodeError :: response where
  "DecodeError = Error ''Failed to load image'' 400"

definition NoTrunkDetected :: response where
  "NoTrunkDetected = Error ''No trunk contour found in image'' 400"

subsection \<open>A concrete world for evaluation\<close>

text \<open>
  One file, \<^verbatim>\<open>trunk.jpg\<close>, on which the pipeline finds three contours; the second and the third
  have the same, largest area. A second file, \<^verbatim>\<open>blank.png\<close>, decodes but has no contour, and
  \<^verbatim>\<open>notes.txt\<close> exists but does not decode.
\<close>

definition img_trunk :: ndarray where
  "img_trunk = [[[10, 20, 30], [200, 210, 220]]]"

definition img_blank :: ndarray where
  "img_blank = [[[7, 7, 7], [7, 7, 7]]]"

definition cnt_a :: contour where "cnt_a = [(0, 0), (1, 0), (1, 1)]"

definition cnt_b :: contour where "cnt_b = [(0, 0), (10, 0), (10, 10), (0, 10)]"

definition cnt_c :: contour where "cnt_c = [(20, 20), (30, 20), (30, 30), (20, 30)]"

definition world0 :: world where
  "world0 =
    \<lparr>os_path_exists = (\<lambda>p. p \<in> {''trunk.jpg'', ''blank.png'', ''notes.txt''}),
     cv2_imread = (\<lambda>p. if p = ''trunk.jpg'' then Some img_trunk
                        else if p = ''blank.png'' then Some img_blank else None),
     cv2_cvtColor = (\<lambda>im code. im),
     cv2_GaussianBlur = (\<lambda>im ksize sigma. im),
     cv2_Canny = (\<lambda>im lo hi. im),
     cv2_findContours = (\<lambda>im mode method.
        if im = img_trunk then ([cnt_a, cnt_b, cnt_c], []) else ([], [])),
     cv2_contourArea = (\<lambda>c. if c = cnt_a then 1 / 2 else 100),
     cv2_minEnclosingCircle = (\<lambda>c. if c = cnt_b then ((5, 5), 5) else ((25, 25), 8))\<rparr>"

definition rq_trunk :: "string option \<Rightarrow> request" where
  "rq_trunk sp = \<lparr>image_path = Some ''trunk.jpg'', species = sp\<rparr>"

text \<open>What the handler answers on \<^verbatim>\<open>trunk.jpg\<close> with the default species, and its trace.\<close>

definition result0 :: result where
  "result0 = \<lparr>dbh = 1, girth = float_round pi 1, height = 1, canopy = 1 / 2\<rparr>"

definition trace0 :: "event list" where
  "trace0 = pipeline_events ''trunk.jpg''
     @ [Ev_contourArea cnt_a, Ev_contourArea cnt_b, Ev_contourArea cnt_c,
        Ev_minEnclosingCircle cnt_b]"

text \<open>A run of three requests, the first and the last being the same.\<close>

definition calls0 :: "(world \<times> call) list" where
  "calls0 = [(world0, POST_qc (rq_trunk None)), (world0, GET_species),
             (world0, POST_qc (rq_trunk None))]"

text \<open>
  The same world with an enclosing circle of radius 15.3125 pixels, so that the diameter is
  3.0625 cm, and what the handler answers there for the species \<^verbatim>\<open>Oak\<close> and \<^verbatim>\<open>Maple\<close>.
\<close>

definition world1 :: world where
  "world1 = world0\<lparr>cv2_minEnclosingCircle := (\<lambda>c. ((5, 5), 245 / 16))\<rparr>"

definition result_oak :: result where
  "result_oak = \<lparr>dbh = 31 / 10, girth = float_round (pi * (49 / 16)) 1, height = 7,
                  canopy = float_round (7 / 10 * (49 / 16) powr (6 / 5)) 1\<rparr>"

definition result_maple :: result where
  "result_maple = \<lparr>dbh = 31 / 10, girth = float_round (pi * (49 / 16)) 1,
                    height = float_round (3 / 2 * (49 / 16) powr (17 / 10)) 1,
                    canopy = 15 / 2\<rparr>"

section \<open>Properties\<close>

subsection \<open>Auxiliary facts\<close>

text \<open>What a successful call of the handler went through.\<close>

lemma qc_table_unchanged: "snd (snd (qc w tbl rq)) = tbl"
  by (simp add: qc_def Let_def split: option.splits list.splits sum.splits)

lemma qc_OkD:
  assumes "qc w tbl rq = (Ok r, tr, tbl')"
  shows "\<exists>p img c cs. image_path rq = Some p \<and> p \<noteq> [] \<and> os_path_exists w p
      \<and> cv2_imread w p = Some img \<and> find_trunk_contours w img = c # cs
      \<and> measurements tbl (case species rq of None \<Rightarrow> ''Default'' | Some s \<Rightarrow> s)
           (snd (cv2_minEnclosingCircle w (max_from (cv2_contourArea w) c cs))) = Inr r
      \<and> tr = pipeline_events p @ map Ev_contourArea (c # cs)
              @ [Ev_minEnclosingCircle (max_from (cv2_contourArea w) c cs)]
      \<and> tbl' = tbl"
  using assms
  by (simp add: qc_def Let_def split: option.splits list.splits sum.splits if_splits)

lemma measurements_InrD:
  assumes "measurements tbl sp radius = Inr r"
  shows "\<exists>dflt ph pc. map_of tbl ''Default'' = Some dflt
      \<and> float_pow (2 * radius * 0.1) (snd (height_coeffs (dict_get tbl sp dflt))) = Inr (PyFloat ph)
      \<and> float_pow (2 * radius * 0.1) (snd (canopy_coeffs (dict_get tbl sp dflt))) = Inr (PyFloat pc)
      \<and> r = \<lparr>dbh = float_round (2 * radius * 0.1) 1,
              girth = float_round (pi * (2 * radius * 0.1)) 1,
              height = float_round (fst (height_coeffs (dict_get tbl sp dflt)) * ph) 1,
              canopy = float_round (fst (canopy_coeffs (dict_get tbl sp dflt)) * pc) 1\<rparr>"
proof -
  from assms obtain dflt where d: "map_of tbl ''Default'' = Some dflt"
    by (auto simp: measurements_def dict_item_def split: option.splits)
  obtain a_h b_h where h: "height_coeffs (dict_get tbl sp dflt) = (a_h, b_h)" by fastforce
  obtain a_c b_c where c: "canopy_coeffs (dict_get tbl sp dflt) = (a_c, b_c)" by fastforce
  from assms d h c show ?thesis
    apply (simp add: measurements_def dict_item_def Let_def split: sum.splits)
    apply (cases "float_pow (radius / 5) b_h"; cases "float_pow (radius / 5) b_c")
    apply (auto split: sum.splits pynum.splits elim!: py_round.elims float_mul.elims)
    done
qed

text \<open>Rounding to one decimal.\<close>

lemma round_half_even_cases:
  "round_half_even x = \<lfloor>x\<rfloor> \<or> round_half_even x = \<lfloor>x\<rfloor> + 1"
  by (simp add: round_half_even_def Let_def)

lemma round_half_even_nonneg: "0 \<le> x \<Longrightarrow> 0 \<le> round_half_even x"
  using round_half_even_cases [of x] by (auto simp: zero_le_floor) 

lemma round_half_even_error: "\<bar>of_int (round_half_even x) - x\<bar> \<le> 1 / 2"
  unfolding round_half_even_def Let_def by (auto; linarith)

lemma float_round_1: "float_round x 1 = of_int (round_half_even (x * 10)) / 10"
  by (simp add: float_round_def)

lemma float_round_1_nonneg: "0 \<le> x \<Longrightarrow> \<exists>n::nat. float_round x 1 = real n / 10"
proof -
  assume "0 \<le> x"
  then have "0 \<le> round_half_even (x * 10)" by (simp add: round_half_even_nonneg)
  then have "real_of_int (round_half_even (x * 10)) = real (nat (round_half_even (x * 10)))" by simp
  then show ?thesis unfolding float_round_1 by metis
qed

lemma float_round_1_error: "\<bar>float_round x 1 - x\<bar> \<le> 1 / 20"
proof -
  define k where "k = real_of_int (round_half_even (x * 10))"
  have fr: "float_round x 1 = k / 10"
    by (simp add: float_round_def k_def)
  have "\<bar>k - x * 10\<bar> \<le> 1 / 2"
    unfolding k_def by (rule round_half_even_error)
  then show ?thesis unfolding fr by linarith
qed

text \<open>The item \<^verbatim>\<open>max\<close> returns: the first one whose key is maximal.\<close>

lemma max_from_spec:
  "\<exists>i < Suc (length xs). max_from key m xs = (m # xs) ! i
     \<and> (\<forall>j < Suc (length xs). key ((m # xs) ! j) \<le> key ((m # xs) ! i))
     \<and> (\<forall>j < i. key ((m # xs) ! j) < key ((m # xs) ! i))"
proof (induction xs arbitrary: m)
  case Nil
  then show ?case by simp
next
  case (Cons x xs)
  show ?case
  proof (cases "key m < key x")
    case True
    from Cons.IH [of x] obtain i where i: "i < Suc (length xs)" "max_from key x xs = (x # xs) ! i"
      "\<forall>j < Suc (length xs). key ((x # xs) ! j) \<le> key ((x # xs) ! i)"
      "\<forall>j < i. key ((x # xs) ! j) < key ((x # xs) ! i)" by blast
    from i(3) have xi: "key x \<le> key ((x # xs) ! i)" by (metis nth_Cons_0 zero_less_Suc)
    have "Suc i < Suc (length (x # xs))" using i(1) by simp
    moreover have "max_from key m (x # xs) = (m # x # xs) ! Suc i" using True i(2) by simp
    moreover have "\<forall>j < Suc (length (x # xs)). key ((m # x # xs) ! j) \<le> key ((m # x # xs) ! Suc i)"
    proof (intro allI impI)
      fix j assume "j < Suc (length (x # xs))"
      then show "key ((m # x # xs) ! j) \<le> key ((m # x # xs) ! Suc i)"
        using True xi i(3) by (cases j) auto
    qed
    moreover have "\<forall>j < Suc i. key ((m # x # xs) ! j) < key ((m # x # xs) ! Suc i)"
    proof (intro allI impI)
      fix j assume "j < Suc i"
      then show "key ((m # x # xs) ! j) < key ((m # x # xs) ! Suc i)"
        using True xi i(4) by (cases j) auto
    qed
    ultimately show ?thesis by blast
  next
    case False
    from Cons.IH [of m] obtain i where i: "i < Suc (length xs)" "max_from key m xs = (m # xs) ! i"
      "\<forall>j < Suc (length xs). key ((m # xs) ! j) \<le> key ((m # xs) ! i)"
      "\<forall>j < i. key ((m # xs) ! j) < key ((m # xs) ! i)" by blast
    from i(3) have mi: "key m \<le> key ((m # xs) ! i)" by (metis nth_Cons_0 zero_less_Suc)
    show ?thesis
    proof (cases i)
      case 0
      have "max_from key m (x # xs) = (m # x # xs) ! 0" using False i(2) 0 by simp
      moreover have "\<forall>j < Suc (length (x # xs)). key ((m # x # xs) ! j) \<le> key ((m # x # xs) ! 0)"
      proof (intro allI impI)
        fix j assume j: "j < Suc (length (x # xs))"
        show "key ((m # x # xs) ! j) \<le> key ((m # x # xs) ! 0)"
        proof (cases j)
          case 0 then show ?thesis by simp
        next
          case (Suc k)
          show ?thesis
          proof (cases k)
            case 0 with Suc False show ?thesis by simp
          next
            case (Suc l)
            with \<open>j = Suc k\<close> j have "Suc l < Suc (length xs)" by simp
            with i(3) \<open>i = 0\<close> have "key ((m # xs) ! Suc l) \<le> key m" by (metis nth_Cons_0)
            with Suc \<open>j = Suc k\<close> show ?thesis by simp
          qed
        qed
      qed
      ultimately show ?thesis by (intro exI [of _ 0]) simp
    next
      case (Suc k)
      have "Suc i < Suc (length (x # xs))" using i(1) by simp
      moreover have "max_from key m (x # xs) = (m # x # xs) ! Suc i" using False i(2) Suc by simp
      moreover have "\<forall>j < Suc (length (x # xs)). key ((m # x # xs) ! j) \<le> key ((m # x # xs) ! Suc i)"
      proof (intro allI impI)
        fix j assume j: "j < Suc (length (x # xs))"
        show "key ((m # x # xs) ! j) \<le> key ((m # x # xs) ! Suc i)"
        proof (cases j)
          case 0 then show ?thesis using mi Suc by simp
        next
          case (Suc l)
          show ?thesis
          proof (cases l)
            case 0 with \<open>j = Suc l\<close> False mi \<open>i = Suc k\<close> show ?thesis by simp
          next
            case (Suc n)
            with \<open>j = Suc l\<close> j have "Suc n < Suc (length xs)" by simp
            with i(3) have "key ((m # xs) ! Suc n) \<le> key ((m # xs) ! i)" by blast
            with Suc \<open>j = Suc l\<close> \<open>i = Suc k\<close> show ?thesis by simp
          qed
        qed
      qed
      moreover have "\<forall>j < Suc i. key ((m # x # xs) ! j) < key ((m # x # xs) ! Suc i)"
      proof (intro allI impI)
        fix j assume j: "j < Suc i"
        have m_lt: "key m < key ((m # xs) ! i)" using i(4) Suc by (metis nth_Cons_0 zero_less_Suc)
        show "key ((m # x # xs) ! j) < key ((m # x # xs) ! Suc i)"
        proof (cases j)
          case 0 then show ?thesis using m_lt Suc by simp
        next
          case (Suc l)
          show ?thesis
          proof (cases l)
            case 0 with \<open>j = Suc l\<close> False m_lt \<open>i = Suc k\<close> show ?thesis by simp
          next
            case (Suc n)
            with \<open>j = Suc l\<close> j have "Suc n < i" by simp
            with i(4) have "key ((m # xs) ! Suc n) < key ((m # xs) ! i)" by blast
            with Suc \<open>j = Suc l\<close> \<open>i = Suc k\<close> show ?thesis by simp
          qed
        qed
      qed
      ultimately show ?thesis by blast
    qed
  qed
qed

text \<open>The entries of the program's table, and the power on a base that is not negative.\<close>

lemma species_coeffs_default:
  "map_of species_coeffs ''Default'' = Some \<lparr>height_coeffs = (1.00, 1.200), canopy_coeffs = (0.50, 1.500)\<rparr>"
  by (simp add: species_coeffs_def)

lemma dict_get_cases:
  assumes "list_all (\<lambda>kv. P (snd kv)) tbl" and "P dflt"
  shows "P (dict_get tbl sp dflt)"
proof (cases "map_of tbl sp")
  case None
  with assms(2) show ?thesis by (simp add: dict_get_def)
next
  case (Some v)
  then have "(sp, v) \<in> set tbl" by (rule map_of_SomeD)
  with assms(1) have "P v" by (auto simp: list_all_iff)
  with Some show ?thesis by (simp add: dict_get_def)
qed

lemma float_pow_nonneg_base:
  "0 \<le> x \<Longrightarrow> 0 < y \<Longrightarrow> float_pow x y = Inr (PyFloat (x powr y))"
  by (simp add: float_pow_def)

lemma float_pow_float_fractional:
  "float_pow x y = Inr (PyFloat v) \<Longrightarrow> of_int \<lfloor>y\<rfloor> \<noteq> y \<Longrightarrow> 0 \<le> x"
  by (auto simp: float_pow_def split: if_splits)

lemma species_coeffs_all:
  "list_all (\<lambda>kv. 0 < fst (height_coeffs (snd kv)) \<and> 0 < snd (height_coeffs (snd kv))
        \<and> of_int \<lfloor>snd (height_coeffs (snd kv))\<rfloor> \<noteq> snd (height_coeffs (snd kv))
        \<and> 0 < fst (canopy_coeffs (snd kv)) \<and> 0 < snd (canopy_coeffs (snd kv)))
     species_coeffs"
  by (simp add: species_coeffs_def del: of_int_floor_cancel)

lemma species_coeffs_entries:
  assumes "map_of species_coeffs ''Default'' = Some dflt"
  shows "0 < fst (height_coeffs (dict_get species_coeffs sp dflt))
     \<and> 0 < snd (height_coeffs (dict_get species_coeffs sp dflt))
     \<and> of_int \<lfloor>snd (height_coeffs (dict_get species_coeffs sp dflt))\<rfloor>
           \<noteq> snd (height_coeffs (dict_get species_coeffs sp dflt))
     \<and> 0 < fst (canopy_coeffs (dict_get species_coeffs sp dflt))
     \<and> 0 < snd (canopy_coeffs (dict_get species_coeffs sp dflt))"
proof (rule dict_get_cases [OF species_coeffs_all])
  from assms have "dflt = \<lparr>height_coeffs = (1.00, 1.200), canopy_coeffs = (0.50, 1.500)\<rparr>"
    by (simp add: species_coeffs_default)
  then show "0 < fst (height_coeffs dflt) \<and> 0 < snd (height_coeffs dflt)
     \<and> of_int \<lfloor>snd (height_coeffs dflt)\<rfloor> \<noteq> snd (height_coeffs dflt)
     \<and> 0 < fst (canopy_coeffs dflt) \<and> 0 < snd (canopy_coeffs dflt)"
    by (simp del: of_int_floor_cancel)
qed

text \<open>What a successful call on the program's own table computed.\<close>

lemma measurements_species_coeffs:
  assumes "measurements species_coeffs sp radius = Inr r"
  shows "\<exists>dflt. map_of species_coeffs ''Default'' = Some dflt
      \<and> 0 \<le> 2 * radius * 0.1
      \<and> 0 < fst (height_coeffs (dict_get species_coeffs sp dflt))
      \<and> 0 < fst (canopy_coeffs (dict_get species_coeffs sp dflt))
      \<and> r = \<lparr>dbh = float_round (2 * radius * 0.1) 1,
              girth = float_round (pi * (2 * radius * 0.1)) 1,
              height = float_round (fst (height_coeffs (dict_get species_coeffs sp dflt))
                 * (2 * radius * 0.1) powr snd (height_coeffs (dict_get species_coeffs sp dflt))) 1,
              canopy = float_round (fst (canopy_coeffs (dict_get species_coeffs sp dflt))
                 * (2 * radius * 0.1) powr snd (canopy_coeffs (dict_get species_coeffs sp dflt))) 1\<rparr>"
proof -
  from measurements_InrD [OF assms] obtain dflt ph pc where
    d: "map_of species_coeffs ''Default'' = Some dflt" and
    ph: "float_pow (2 * radius * 0.1) (snd (height_coeffs (dict_get species_coeffs sp dflt))) = Inr (PyFloat ph)" and
    pc: "float_pow (2 * radius * 0.1) (snd (canopy_coeffs (dict_get species_coeffs sp dflt))) = Inr (PyFloat pc)" and
    r: "r = \<lparr>dbh = float_round (2 * radius * 0.1) 1,
              girth = float_round (pi * (2 * radius * 0.1)) 1,
              height = float_round (fst (height_coeffs (dict_get species_coeffs sp dflt)) * ph) 1,
              canopy = float_round (fst (canopy_coeffs (dict_get species_coeffs sp dflt)) * pc) 1\<rparr>"
    by blast
  note e = species_coeffs_entries [OF d, of sp]
  from ph e have nonneg: "0 \<le> 2 * radius * 0.1"
    by (blast intro: float_pow_float_fractional)
  from ph nonneg e have "ph = (2 * radius * 0.1) powr snd (height_coeffs (dict_get species_coeffs sp dflt))"
    by (simp add: float_pow_nonneg_base)
  moreover from pc nonneg e have "pc = (2 * radius * 0.1) powr snd (canopy_coeffs (dict_get species_coeffs sp dflt))"
    by (simp add: float_pow_nonneg_base)
  ultimately show ?thesis using d nonneg e r by blast
qed

text \<open>The concrete world, evaluated.\<close>

lemma world0_exists:
  "os_path_exists world0 ''trunk.jpg''" "os_path_exists world0 ''blank.png''"
  "os_path_exists world0 ''notes.txt''" "\<not> os_path_exists world0 ''missing.jpg''"
  "\<not> os_path_exists world0 ''''"
  by (simp_all add: world0_def)

lemma world0_imread:
  "cv2_imread world0 ''trunk.jpg'' = Some img_trunk"
  "cv2_imread world0 ''blank.png'' = Some img_blank"
  "cv2_imread world0 ''notes.txt'' = None"
  by (simp_all add: world0_def)

lemma world0_contours:
  "find_trunk_contours world0 img_trunk = [cnt_a, cnt_b, cnt_c]"
  "find_trunk_contours world0 img_blank = []"
  by (simp_all add: find_trunk_contours_def world0_def img_trunk_def img_blank_def)

lemma world0_area:
  "cv2_contourArea world0 cnt_a = 1 / 2" "cv2_contourArea world0 cnt_b = 100"
  "cv2_contourArea world0 cnt_c = 100"
  by (simp_all add: world0_def cnt_a_def cnt_b_def cnt_c_def)

lemma world0_max: "max_from (cv2_contourArea world0) cnt_a [cnt_b, cnt_c] = cnt_b"
  by (simp add: world0_area)

lemma world0_radius: "snd (cv2_minEnclosingCircle world0 cnt_b) = 5"
  by (simp add: world0_def)

lemma round_half_even_10: "round_half_even 10 = 10"
  by (simp add: round_half_even_def Let_def)

lemma round_half_even_5: "round_half_even 5 = 5"
  by (simp add: round_half_even_def Let_def)

lemma float_round_one: "float_round 1 1 = 1"
  unfolding float_round_def by (simp add: round_half_even_10)

lemma float_round_half: "float_round (1 / 2) 1 = 1 / 2"
  unfolding float_round_def by (simp add: round_half_even_5)

lemma measurements_default_5:
  "measurements species_coeffs ''Default'' 5
     = Inr \<lparr>dbh = 1, girth = float_round pi 1, height = 1, canopy = 1 / 2\<rparr>"
proof -
  have p: "float_pow 1 (6 / 5) = Inr (PyFloat 1)" "float_pow 1 (3 / 2) = Inr (PyFloat 1)"
    by (simp_all add: float_pow_def)
  show ?thesis
    unfolding measurements_def dict_item_def dict_get_def species_coeffs_default
    by (simp add: p float_round_one float_round_half del: One_nat_def)
qed

lemma qc_trunk_default:
  "qc world0 species_coeffs (rq_trunk None) = (Ok result0, trace0, species_coeffs)"
  by (simp add: qc_def rq_trunk_def world0_exists world0_imread world0_contours world0_area
      world0_radius measurements_default_5 result0_def trace0_def)

lemma abs_diff_via:
  fixes a b c :: real
  assumes "\<bar>a - c\<bar> \<le> e1" and "\<bar>b - c\<bar> \<le> e2"
  shows "\<bar>a - b\<bar> \<le> e1 + e2"
  using assms by linarith

text \<open>The second world, evaluated, and rounding as a nearest tenth.\<close>

lemma powr_49_16:
  "(49 / 16 :: real) powr (3 / 2) = 343 / 64" "(49 / 16 :: real) powr 2 = 2401 / 256"
proof -
  have sq: "(49 / 16 :: real) = (7 / 4) powr 2"
    by (simp add: power2_eq_square)
  have "((7 / 4 :: real) powr 2) powr (3 / 2) = (7 / 4) powr (2 * (3 / 2))"
    by (rule powr_powr)
  also have "\<dots> = 343 / 64"
    by (simp add: power3_eq_cube)
  finally have "((7 / 4 :: real) powr 2) powr (3 / 2) = 343 / 64" .
  then show "(49 / 16 :: real) powr (3 / 2) = 343 / 64"
    by (simp only: flip: sq)
  show "(49 / 16 :: real) powr 2 = 2401 / 256"
    by (simp add: power2_eq_square)
qed

lemma float_round_tenths:
  "float_round (49 / 16) 1 = 31 / 10" "float_round (4459 / 640) 1 = 7"
  "float_round (2401 / 320) 1 = 15 / 2"
  unfolding float_round_def round_half_even_def Let_def by simp_all

lemma species_coeffs_oak_maple:
  "map_of species_coeffs ''Oak'' = Some \<lparr>height_coeffs = (1.30, 1.50), canopy_coeffs = (0.70, 1.20)\<rparr>"
  "map_of species_coeffs ''Maple'' = Some \<lparr>height_coeffs = (1.50, 1.70), canopy_coeffs = (0.80, 2.00)\<rparr>"
  by (simp_all add: species_coeffs_def)

lemma measurements_oak:
  "measurements species_coeffs ''Oak'' (245 / 16) = Inr result_oak"
proof -
  have p: "float_pow (49 / 16) (3 / 2) = Inr (PyFloat (343 / 64))"
    "float_pow (49 / 16) (6 / 5) = Inr (PyFloat ((49 / 16) powr (6 / 5)))"
    by (simp_all add: float_pow_nonneg_base powr_49_16)
  show ?thesis
    unfolding measurements_def dict_item_def dict_get_def species_coeffs_default
      species_coeffs_oak_maple result_oak_def
    by (simp add: p float_round_tenths del: One_nat_def)
qed

lemma measurements_maple:
  "measurements species_coeffs ''Maple'' (245 / 16) = Inr result_maple"
proof -
  have p: "float_pow (49 / 16) (17 / 10) = Inr (PyFloat ((49 / 16) powr (17 / 10)))"
    "float_pow (49 / 16) 2 = Inr (PyFloat (2401 / 256))"
    by (simp_all add: float_pow_nonneg_base powr_49_16)
  show ?thesis
    unfolding measurements_def dict_item_def dict_get_def species_coeffs_default
      species_coeffs_oak_maple result_maple_def
    by (simp add: p float_round_tenths del: One_nat_def)
qed

lemma world1_eval:
  "os_path_exists world1 = os_path_exists world0" "cv2_imread world1 = cv2_imread world0"
  "find_trunk_contours world1 = find_trunk_contours world0"
  "cv2_contourArea world1 = cv2_contourArea world0"
  "snd (cv2_minEnclosingCircle world1 c) = 245 / 16"
  by (simp_all add: world1_def find_trunk_contours_def fun_eq_iff)

lemma qc_trunk_oak:
  "qc world1 species_coeffs (rq_trunk (Some ''Oak'')) = (Ok result_oak, trace0, species_coeffs)"
  by (simp add: qc_def rq_trunk_def world1_eval world0_exists world0_imread world0_contours
      world0_area measurements_oak trace0_def)

lemma qc_trunk_maple:
  "qc world1 species_coeffs (rq_trunk (Some ''Maple'')) = (Ok result_maple, trace0, species_coeffs)"
  by (simp add: qc_def rq_trunk_def world1_eval world0_exists world0_imread world0_contours
      world0_area measurements_maple trace0_def)

lemma float_round_1_nearest:
  "(\<exists>k::int. float_round x 1 = of_int k / 10) \<and> \<bar>float_round x 1 - x\<bar> \<le> 1 / 20"
  using float_round_1 [of x] float_round_1_error [of x] by blast

subsection \<open>Early exits\<close>

text \<open>
  C10. A request whose image path is the empty string is answered like a request without
  an image path: the response is the missing-input error with the message
  \<^verbatim>\<open>No image_path provided\<close>, it is not the not-found error, and the trace is empty, so
  neither the file system nor the decoder was called.
\<close>

theorem C10_empty_path_is_missing_input:
  "qc w tbl \<lparr>image_path = Some '''', species = sp\<rparr> = (MissingInput, [], tbl)
   \<and> qc w tbl \<lparr>image_path = Some '''', species = sp\<rparr> = qc w tbl \<lparr>image_path = None, species = sp\<rparr>
   \<and> MissingInput = Error ''No image_path provided'' 400
   \<and> MissingInput \<noteq> NotFound ''''"
  by (simp add: qc_def MissingInput_def NotFound_def)

text \<open>
  C6 as stated fails at the empty path: no file has the empty name, yet the response is the
  missing-input error, not the not-found error.
\<close>

theorem C6_empty_path_counterexample:
  "\<not> os_path_exists world0 ''''
   \<and> fst (qc world0 species_coeffs \<lparr>image_path = Some '''', species = None\<rparr>) \<noteq> NotFound ''''
   \<and> fst (qc world0 species_coeffs \<lparr>image_path = Some '''', species = None\<rparr>) = MissingInput"
  by (simp add: qc_def world0_exists NotFound_def MissingInput_def)

text \<open>
  C6, amended. For every non-empty path that does not reference an existing file the response
  is the not-found error, the only call made is the existence test, and the decoder is never
  called.
\<close>

theorem C6_missing_file_not_found:
  assumes "p \<noteq> []" and "\<not> os_path_exists w p"
  shows "qc w tbl \<lparr>image_path = Some p, species = sp\<rparr> = (NotFound p, [Ev_exists p], tbl)
     \<and> Ev_imread p \<notin> set (fst (snd (qc w tbl \<lparr>image_path = Some p, species = sp\<rparr>)))"
  using assms by (simp add: qc_def NotFound_def)

theorem C6_missing_file_witness:
  "''missing.jpg'' \<noteq> [] \<and> \<not> os_path_exists world0 ''missing.jpg''
   \<and> qc world0 species_coeffs \<lparr>image_path = Some ''missing.jpg'', species = None\<rparr>
       = (NotFound ''missing.jpg'', [Ev_exists ''missing.jpg''], species_coeffs)
   \<and> Ev_imread ''missing.jpg''
       \<notin> set (fst (snd (qc world0 species_coeffs \<lparr>image_path = Some ''missing.jpg'', species = None\<rparr>)))"
proof -
  have h1: "''missing.jpg'' \<noteq> []" by simp
  have h2: "\<not> os_path_exists world0 ''missing.jpg''" by (rule world0_exists)
  from C6_missing_file_not_found [OF h1 h2, of species_coeffs None] h1 h2
  show ?thesis by blast
qed

text \<open>
  C7. For every image that is found and decoded and on which the pipeline finds no contour,
  the response is the no-trunk error; it carries no measurements.
\<close>

theorem C7_no_contours_no_trunk:
  assumes "p \<noteq> []" and "os_path_exists w p" and "cv2_imread w p = Some img"
    and "find_trunk_contours w img = []"
  shows "qc w tbl \<lparr>image_path = Some p, species = sp\<rparr> = (NoTrunkDetected, pipeline_events p, tbl)
     \<and> (\<forall>r. NoTrunkDetected \<noteq> Ok r)"
  using assms by (simp add: qc_def NoTrunkDetected_def)

theorem C7_no_contours_witness:
  "''blank.png'' \<noteq> [] \<and> os_path_exists world0 ''blank.png''
   \<and> cv2_imread world0 ''blank.png'' = Some img_blank
   \<and> find_trunk_contours world0 img_blank = []
   \<and> qc world0 species_coeffs \<lparr>image_path = Some ''blank.png'', species = None\<rparr>
       = (NoTrunkDetected, pipeline_events ''blank.png'', species_coeffs)"
proof -
  have h1: "''blank.png'' \<noteq> []" by simp
  note h2 = world0_exists(2) and h3 = world0_imread(2) and h4 = world0_contours(2)
  from C7_no_contours_no_trunk [OF h1 h2 h3 h4, of species_coeffs None] h1 h2 h3 h4
  show ?thesis by blast
qed

subsection \<open>The measurements of a successful estimate\<close>

text \<open>
  C1. Every successful estimate went through a decoded image with a non-empty list of
  contours, and the reported trunk diameter is the diameter in pixels of the minimum
  enclosing circle of the selected contour, twice its radius, times the scale 0.1 cm per
  pixel, rounded to one decimal place: it is a whole number of tenths and it lies within one
  twentieth of that product. Where the product lies half-way between two tenths, both
  neighbours are roundings of it and the statement does not say which one is reported: the
  handler rounds the double it computed, which lies on one side of the exact product or the
  other (for a radius of 328.25 pixels the product is 65.65 and the handler reports 65.7).
\<close>

theorem C1_dbh_from_enclosing_circle:
  assumes "qc w tbl rq = (Ok r, tr, tbl')"
  shows "\<exists>p img c cs. image_path rq = Some p \<and> cv2_imread w p = Some img
      \<and> find_trunk_contours w img = c # cs
      \<and> (\<exists>k::int. dbh r = of_int k / 10)
      \<and> \<bar>dbh r - 2 * snd (cv2_minEnclosingCircle w (max_from (cv2_contourArea w) c cs)) * 0.1\<bar>
            \<le> 1 / 20"
proof -
  from qc_OkD [OF assms] obtain p img c cs where
    h: "image_path rq = Some p" "cv2_imread w p = Some img" "find_trunk_contours w img = c # cs"
    and m: "measurements tbl (case species rq of None \<Rightarrow> ''Default'' | Some s \<Rightarrow> s)
           (snd (cv2_minEnclosingCircle w (max_from (cv2_contourArea w) c cs))) = Inr r"
    by blast
  define d where "d = 2 * snd (cv2_minEnclosingCircle w (max_from (cv2_contourArea w) c cs)) * 0.1"
  from measurements_InrD [OF m] have "dbh r = float_round d 1"
    by (auto simp: d_def)
  with float_round_1_nearest [of d]
  have "(\<exists>k::int. dbh r = of_int k / 10) \<and> \<bar>dbh r - d\<bar> \<le> 1 / 20"
    by simp
  with h show ?thesis unfolding d_def by blast
qed

theorem C1_dbh_witness:
  "qc world1 species_coeffs (rq_trunk (Some ''Oak'')) = (Ok result_oak, trace0, species_coeffs)
   \<and> (\<exists>p img c cs. image_path (rq_trunk (Some ''Oak'')) = Some p
      \<and> cv2_imread world1 p = Some img
      \<and> find_trunk_contours world1 img = c # cs
      \<and> (\<exists>k::int. dbh result_oak = of_int k / 10)
      \<and> \<bar>dbh result_oak
           - 2 * snd (cv2_minEnclosingCircle world1 (max_from (cv2_contourArea world1) c cs)) * 0.1\<bar>
            \<le> 1 / 20)
   \<and> 2 * snd (cv2_minEnclosingCircle world1 cnt_b) * 0.1 = 49 / 16
   \<and> dbh result_oak = 31 / 10"
  using C1_dbh_from_enclosing_circle [OF qc_trunk_oak] qc_trunk_oak
  by (simp add: result_oak_def world1_eval)

text \<open>
  C2. In every successful estimate the two output fields are the roundings to one decimal of
  a diameter and of \<open>\<pi>\<close> times that same diameter. So the reported girth is
  \<open>\<pi>\<close> times the reported diameter up to the two roundings: the difference is at most
  \<open>(1 + \<pi>) / 20\<close>.
\<close>

theorem C2_girth_is_pi_times_dbh:
  assumes "qc w tbl rq = (Ok r, tr, tbl')"
  shows "(\<exists>dbh_cm. dbh r = float_round dbh_cm 1 \<and> girth r = float_round (pi * dbh_cm) 1)
     \<and> \<bar>girth r - pi * dbh r\<bar> \<le> (1 + pi) / 20"
proof -
  from qc_OkD [OF assms] obtain sp radius where m: "measurements tbl sp radius = Inr r"
    by blast
  define d where "d = 2 * radius * 0.1"
  from measurements_InrD [OF m] have r: "dbh r = float_round d 1" "girth r = float_round (pi * d) 1"
    by (auto simp: d_def)
  have "\<bar>float_round (pi * d) 1 - pi * d\<bar> \<le> 1 / 20"
    by (rule float_round_1_error)
  moreover have "\<bar>pi * float_round d 1 - pi * d\<bar> \<le> pi / 20"
  proof -
    have "\<bar>pi * float_round d 1 - pi * d\<bar> = pi * \<bar>float_round d 1 - d\<bar>"
      by (simp add: abs_mult flip: right_diff_distrib)
    also have "\<dots> \<le> pi * (1 / 20)"
      by (rule mult_left_mono [OF float_round_1_error]) simp
    finally show ?thesis by simp
  qed
  ultimately have "\<bar>float_round (pi * d) 1 - pi * float_round d 1\<bar> \<le> 1 / 20 + pi / 20"
    by (rule abs_diff_via)
  then have "\<bar>float_round (pi * d) 1 - pi * float_round d 1\<bar> \<le> (1 + pi) / 20"
    by (simp only: add_divide_distrib)
  with r show ?thesis by auto
qed

theorem C2_girth_witness:
  "qc world0 species_coeffs (rq_trunk None) = (Ok result0, trace0, species_coeffs)
   \<and> (\<exists>dbh_cm. dbh result0 = float_round dbh_cm 1 \<and> girth result0 = float_round (pi * dbh_cm) 1)
   \<and> \<bar>girth result0 - pi * dbh result0\<bar> \<le> (1 + pi) / 20"
  using C2_girth_is_pi_times_dbh [OF qc_trunk_default] qc_trunk_default
  by simp

text \<open>
  C3. In every successful estimate on the program's table the diameter in centimetres is not
  negative, and with the coefficients selected for the species the reported height is
  \<open>a\<^sub>h * dbh_cm powr b\<^sub>h\<close> and the reported canopy is \<open>a\<^sub>c * dbh_cm powr b\<^sub>c\<close>, each
  rounded to one decimal place: a whole number of tenths within one twentieth of the power
  law. As for the diameter, the direction of the rounding on a tie is left open.
\<close>

theorem C3_allometric_height_and_canopy:
  assumes "qc w species_coeffs rq = (Ok r, tr, tbl')"
  shows "\<exists>p img c cs dflt. image_path rq = Some p \<and> cv2_imread w p = Some img
      \<and> find_trunk_contours w img = c # cs
      \<and> map_of species_coeffs ''Default'' = Some dflt
      \<and> (let dbh_cm = 2 * snd (cv2_minEnclosingCircle w (max_from (cv2_contourArea w) c cs)) * 0.1;
              cf = dict_get species_coeffs (case species rq of None \<Rightarrow> ''Default'' | Some s \<Rightarrow> s) dflt
          in 0 \<le> dbh_cm
             \<and> (\<exists>k::int. height r = of_int k / 10)
             \<and> \<bar>height r - fst (height_coeffs cf) * dbh_cm powr snd (height_coeffs cf)\<bar> \<le> 1 / 20
             \<and> (\<exists>k::int. canopy r = of_int k / 10)
             \<and> \<bar>canopy r - fst (canopy_coeffs cf) * dbh_cm powr snd (canopy_coeffs cf)\<bar> \<le> 1 / 20)"
proof -
  from qc_OkD [OF assms] obtain p img c cs where
    h: "image_path rq = Some p" "cv2_imread w p = Some img" "find_trunk_contours w img = c # cs"
    and m: "measurements species_coeffs (case species rq of None \<Rightarrow> ''Default'' | Some s \<Rightarrow> s)
           (snd (cv2_minEnclosingCircle w (max_from (cv2_contourArea w) c cs))) = Inr r"
    by blast
  define d where "d = 2 * snd (cv2_minEnclosingCircle w (max_from (cv2_contourArea w) c cs)) * 0.1"
  define sp where "sp = (case species rq of None \<Rightarrow> ''Default'' | Some s \<Rightarrow> s)"
  from measurements_species_coeffs [OF m] obtain dflt where
    dflt: "map_of species_coeffs ''Default'' = Some dflt" and
    nonneg: "0 \<le> d" and
    r: "r = \<lparr>dbh = float_round d 1,
              girth = float_round (pi * d) 1,
              height = float_round (fst (height_coeffs (dict_get species_coeffs sp dflt))
                 * d powr snd (height_coeffs (dict_get species_coeffs sp dflt))) 1,
              canopy = float_round (fst (canopy_coeffs (dict_get species_coeffs sp dflt))
                 * d powr snd (canopy_coeffs (dict_get species_coeffs sp dflt))) 1\<rparr>"
    unfolding d_def sp_def by blast
  define cf where "cf = dict_get species_coeffs sp dflt"
  have hgt: "(\<exists>k::int. height r = of_int k / 10)
      \<and> \<bar>height r - fst (height_coeffs cf) * d powr snd (height_coeffs cf)\<bar> \<le> 1 / 20"
    using float_round_1_nearest [of "fst (height_coeffs cf) * d powr snd (height_coeffs cf)"]
    by (simp add: r cf_def)
  have cnp: "(\<exists>k::int. canopy r = of_int k / 10)
      \<and> \<bar>canopy r - fst (canopy_coeffs cf) * d powr snd (canopy_coeffs cf)\<bar> \<le> 1 / 20"
    using float_round_1_nearest [of "fst (canopy_coeffs cf) * d powr snd (canopy_coeffs cf)"]
    by (simp add: r cf_def)
  from h dflt nonneg hgt cnp show ?thesis
    unfolding Let_def d_def sp_def cf_def by blast
qed

theorem C3_allometric_witness:
  "qc world1 species_coeffs (rq_trunk (Some ''Oak'')) = (Ok result_oak, trace0, species_coeffs)
   \<and> (\<exists>p img c cs dflt. image_path (rq_trunk (Some ''Oak'')) = Some p
      \<and> cv2_imread world1 p = Some img
      \<and> find_trunk_contours world1 img = c # cs
      \<and> map_of species_coeffs ''Default'' = Some dflt
      \<and> (let dbh_cm = 2 * snd (cv2_minEnclosingCircle world1 (max_from (cv2_contourArea world1) c cs)) * 0.1;
              cf = dict_get species_coeffs
                     (case species (rq_trunk (Some ''Oak'')) of None \<Rightarrow> ''Default'' | Some s \<Rightarrow> s) dflt
          in 0 \<le> dbh_cm
             \<and> (\<exists>k::int. height result_oak = of_int k / 10)
             \<and> \<bar>height result_oak - fst (height_coeffs cf) * dbh_cm powr snd (height_coeffs cf)\<bar> \<le> 1 / 20
             \<and> (\<exists>k::int. canopy result_oak = of_int k / 10)
             \<and> \<bar>canopy result_oak - fst (canopy_coeffs cf) * dbh_cm powr snd (canopy_coeffs cf)\<bar> \<le> 1 / 20))
   \<and> qc world1 species_coeffs (rq_trunk (Some ''Maple'')) = (Ok result_maple, trace0, species_coeffs)
   \<and> (\<exists>p img c cs dflt. image_path (rq_trunk (Some ''Maple'')) = Some p
      \<and> cv2_imread world1 p = Some img
      \<and> find_trunk_contours world1 img = c # cs
      \<and> map_of species_coeffs ''Default'' = Some dflt
      \<and> (let dbh_cm = 2 * snd (cv2_minEnclosingCircle world1 (max_from (cv2_contourArea world1) c cs)) * 0.1;
              cf = dict_get species_coeffs
                     (case species (rq_trunk (Some ''Maple'')) of None \<Rightarrow> ''Default'' | Some s \<Rightarrow> s) dflt
          in 0 \<le> dbh_cm
             \<and> (\<exists>k::int. height result_maple = of_int k / 10)
             \<and> \<bar>height result_maple - fst (height_coeffs cf) * dbh_cm powr snd (height_coeffs cf)\<bar> \<le> 1 / 20
             \<and> (\<exists>k::int. canopy result_maple = of_int k / 10)
             \<and> \<bar>canopy result_maple - fst (canopy_coeffs cf) * dbh_cm powr snd (canopy_coeffs cf)\<bar> \<le> 1 / 20))
   \<and> 2 * snd (cv2_minEnclosingCircle world1 cnt_b) * 0.1 = 49 / 16
   \<and> dict_get species_coeffs ''Oak'' \<lparr>height_coeffs = (1, 1.2), canopy_coeffs = (0.5, 1.5)\<rparr>
        = \<lparr>height_coeffs = (1.3, 1.5), canopy_coeffs = (0.7, 1.2)\<rparr>
   \<and> 1.3 * (49 / 16) powr 1.5 = (4459 / 640 :: real) \<and> height result_oak = 7
   \<and> dict_get species_coeffs ''Maple'' \<lparr>height_coeffs = (1, 1.2), canopy_coeffs = (0.5, 1.5)\<rparr>
        = \<lparr>height_coeffs = (1.5, 1.7), canopy_coeffs = (0.8, 2)\<rparr>
   \<and> 0.8 * (49 / 16) powr 2 = (2401 / 320 :: real) \<and> canopy result_maple = 15 / 2"
proof -
  have ev: "2 * snd (cv2_minEnclosingCircle world1 cnt_b) * 0.1 = 49 / 16"
    "dict_get species_coeffs ''Oak'' \<lparr>height_coeffs = (1, 1.2), canopy_coeffs = (0.5, 1.5)\<rparr>
        = \<lparr>height_coeffs = (1.3, 1.5), canopy_coeffs = (0.7, 1.2)\<rparr>"
    "dict_get species_coeffs ''Maple'' \<lparr>height_coeffs = (1, 1.2), canopy_coeffs = (0.5, 1.5)\<rparr>
        = \<lparr>height_coeffs = (1.5, 1.7), canopy_coeffs = (0.8, 2)\<rparr>"
    "1.3 * (49 / 16) powr 1.5 = (4459 / 640 :: real)" "height result_oak = 7"
    "0.8 * (49 / 16) powr 2 = (2401 / 320 :: real)" "canopy result_maple = 15 / 2"
    using powr_49_16
    by (simp_all add: world1_eval dict_get_def species_coeffs_oak_maple result_oak_def
        result_maple_def)
  from C3_allometric_height_and_canopy [OF qc_trunk_oak]
    C3_allometric_height_and_canopy [OF qc_trunk_maple] qc_trunk_oak qc_trunk_maple ev
  show ?thesis by blast
qed

text \<open>
  C8. Each of the four fields of a successful result on the program's table is a natural
  number of tenths: it has at most one decimal digit and it is not negative.
\<close>

theorem C8_outputs_one_decimal_nonnegative:
  assumes "qc w species_coeffs rq = (Ok r, tr, tbl')"
  shows "(\<exists>n::nat. dbh r = real n / 10) \<and> (\<exists>n::nat. girth r = real n / 10)
     \<and> (\<exists>n::nat. height r = real n / 10) \<and> (\<exists>n::nat. canopy r = real n / 10)"
proof -
  from qc_OkD [OF assms] obtain sp radius where m: "measurements species_coeffs sp radius = Inr r"
    by blast
  define d where "d = 2 * radius * 0.1"
  from measurements_species_coeffs [OF m] obtain dflt where
    d: "0 \<le> d" and
    ah: "0 < fst (height_coeffs (dict_get species_coeffs sp dflt))" and
    ac: "0 < fst (canopy_coeffs (dict_get species_coeffs sp dflt))" and
    r: "r = \<lparr>dbh = float_round d 1,
              girth = float_round (pi * d) 1,
              height = float_round (fst (height_coeffs (dict_get species_coeffs sp dflt))
                 * d powr snd (height_coeffs (dict_get species_coeffs sp dflt))) 1,
              canopy = float_round (fst (canopy_coeffs (dict_get species_coeffs sp dflt))
                 * d powr snd (canopy_coeffs (dict_get species_coeffs sp dflt))) 1\<rparr>"
    unfolding d_def by blast
  have "\<exists>n::nat. dbh r = real n / 10"
    using float_round_1_nonneg [OF d] by (simp add: r)
  moreover have "\<exists>n::nat. girth r = real n / 10"
    using float_round_1_nonneg [of "pi * d"] d by (simp add: r)
  moreover have "\<exists>n::nat. height r = real n / 10"
    using float_round_1_nonneg [of "fst (height_coeffs (dict_get species_coeffs sp dflt))
                 * d powr snd (height_coeffs (dict_get species_coeffs sp dflt))"] ah
    by (simp add: r)
  moreover have "\<exists>n::nat. canopy r = real n / 10"
    using float_round_1_nonneg [of "fst (canopy_coeffs (dict_get species_coeffs sp dflt))
                 * d powr snd (canopy_coeffs (dict_get species_coeffs sp dflt))"] ac
    by (simp add: r)
  ultimately show ?thesis by blast
qed

theorem C8_outputs_witness:
  "qc world0 species_coeffs (rq_trunk None) = (Ok result0, trace0, species_coeffs)
   \<and> (\<exists>n::nat. dbh result0 = real n / 10) \<and> (\<exists>n::nat. girth result0 = real n / 10)
   \<and> (\<exists>n::nat. height result0 = real n / 10) \<and> (\<exists>n::nat. canopy result0 = real n / 10)"
  using C8_outputs_one_decimal_nonnegative [OF qc_trunk_default] qc_trunk_default
  by simp

subsection \<open>Species lookup\<close>

text \<open>
  C4. For every species string that is not a key of the table (keys are compared as they
  are written), the handler answers on a request as it does on the same request with the
  species \<^verbatim>\<open>Default\<close>: same response, same trace.
\<close>

theorem C4_unknown_species_is_default:
  assumes "map_of tbl s = None"
  shows "qc w tbl \<lparr>image_path = ip, species = Some s\<rparr>
       = qc w tbl \<lparr>image_path = ip, species = Some ''Default''\<rparr>"
proof -
  have "measurements tbl s radius = measurements tbl ''Default'' radius" for radius
  proof (cases "map_of tbl ''Default''")
    case None
    then show ?thesis by (simp add: measurements_def dict_item_def)
  next
    case (Some dflt)
    with assms have "dict_get tbl s dflt = dict_get tbl ''Default'' dflt"
      by (simp add: dict_get_def)
    with Some show ?thesis by (simp add: measurements_def dict_item_def)
  qed
  then show ?thesis
    by (simp add: qc_def Let_def split: option.splits list.splits)
qed

theorem C4_unknown_species_witness:
  "map_of species_coeffs ''oak'' = None
   \<and> qc world0 species_coeffs \<lparr>image_path = Some ''trunk.jpg'', species = Some ''oak''\<rparr>
       = qc world0 species_coeffs \<lparr>image_path = Some ''trunk.jpg'', species = Some ''Default''\<rparr>"
proof -
  have h: "map_of species_coeffs ''oak'' = None"
    by (simp add: species_coeffs_def)
  from h C4_unknown_species_is_default [OF h] show ?thesis by blast
qed

subsection \<open>Contour selection\<close>

text \<open>
  C5. The contour handed to the minimum enclosing circle is one of the extracted contours, no
  extracted contour has a greater area, and every contour met before it has a strictly
  smaller area: among the contours of maximal area it is the first.
\<close>

theorem C5_largest_contour_first_on_ties:
  assumes "qc w tbl rq = (resp, tr, tbl')" and "Ev_minEnclosingCircle t \<in> set tr"
  shows "\<exists>p img i. image_path rq = Some p \<and> cv2_imread w p = Some img
      \<and> i < length (find_trunk_contours w img)
      \<and> t = find_trunk_contours w img ! i
      \<and> (\<forall>j < length (find_trunk_contours w img).
            cv2_contourArea w (find_trunk_contours w img ! j) \<le> cv2_contourArea w t)
      \<and> (\<forall>j < i. cv2_contourArea w (find_trunk_contours w img ! j) < cv2_contourArea w t)"
proof -
  from assms obtain p img c cs where
    h: "image_path rq = Some p" "cv2_imread w p = Some img" "find_trunk_contours w img = c # cs"
    and t: "t = max_from (cv2_contourArea w) c cs"
    by (auto simp: qc_def Let_def pipeline_events_def
        split: option.splits list.splits sum.splits if_splits)
  from max_from_spec [of cs "cv2_contourArea w" c] obtain i where
    "i < Suc (length cs)" "max_from (cv2_contourArea w) c cs = (c # cs) ! i"
    "\<forall>j < Suc (length cs). cv2_contourArea w ((c # cs) ! j) \<le> cv2_contourArea w ((c # cs) ! i)"
    "\<forall>j < i. cv2_contourArea w ((c # cs) ! j) < cv2_contourArea w ((c # cs) ! i)"
    by blast
  with h t show ?thesis
    by (intro exI [of _ p] exI [of _ img] exI [of _ i]) simp
qed

theorem C5_largest_contour_witness:
  "qc world0 species_coeffs (rq_trunk None) = (Ok result0, trace0, species_coeffs)
   \<and> Ev_minEnclosingCircle cnt_b \<in> set trace0
   \<and> (\<exists>p img i. image_path (rq_trunk None) = Some p \<and> cv2_imread world0 p = Some img
      \<and> i < length (find_trunk_contours world0 img)
      \<and> cnt_b = find_trunk_contours world0 img ! i
      \<and> (\<forall>j < length (find_trunk_contours world0 img).
            cv2_contourArea world0 (find_trunk_contours world0 img ! j) \<le> cv2_contourArea world0 cnt_b)
      \<and> (\<forall>j < i. cv2_contourArea world0 (find_trunk_contours world0 img ! j) < cv2_contourArea world0 cnt_b))
   \<and> cv2_contourArea world0 cnt_c = cv2_contourArea world0 cnt_b
   \<and> find_trunk_contours world0 img_trunk = [cnt_a, cnt_b, cnt_c]"
proof -
  have m: "Ev_minEnclosingCircle cnt_b \<in> set trace0"
    by (simp add: trace0_def)
  from C5_largest_contour_first_on_ties [OF qc_trunk_default m] qc_trunk_default m
  show ?thesis by (simp add: world0_area world0_contours)
qed

subsection \<open>No state between calls\<close>

lemma dispatch_table_unchanged: "snd (snd (dispatch w c tbl)) = tbl"
proof (cases c)
  case (POST_qc rq)
  obtain r tr tbl' where q: "qc w tbl rq = (r, tr, tbl')" by (cases "qc w tbl rq")
  with qc_table_unchanged [of w tbl rq] have "tbl' = tbl" by simp
  with POST_qc q show ?thesis by simp
next
  case GET_species
  then show ?thesis by (simp add: get_species_def)
next
  case GET_health
  then show ?thesis by (simp add: health_def)
qed

text \<open>
  C9. In every run of the service each reply is the reply of a single call on the initial
  table, so two calls with the same world and the same request get the same reply wherever
  they occur in the run; the table after the run is the initial table, and \<^verbatim>\<open>qc\<close> alone
  leaves the table as it found it.
\<close>

theorem C9_stateless_and_table_unchanged:
  "serve calls tbl
     = (map (\<lambda>(w, c). (fst (dispatch w c tbl), fst (snd (dispatch w c tbl)))) calls, tbl)
   \<and> (\<forall>i j. i < length calls \<longrightarrow> j < length calls \<longrightarrow> calls ! i = calls ! j
         \<longrightarrow> fst (serve calls tbl) ! i = fst (serve calls tbl) ! j)
   \<and> snd (snd (qc w tbl rq)) = tbl"
proof -
  have run: "serve calls tbl
     = (map (\<lambda>(w, c). (fst (dispatch w c tbl), fst (snd (dispatch w c tbl)))) calls, tbl)"
  proof (induction calls)
    case Nil
    show ?case by simp
  next
    case (Cons wc calls)
    obtain w c where wc: "wc = (w, c)" by (cases wc)
    obtain r tr tbl' where d: "dispatch w c tbl = (r, tr, tbl')" by (cases "dispatch w c tbl")
    with dispatch_table_unchanged [of w c tbl] have "tbl' = tbl" by simp
    with Cons.IH wc d show ?case by simp
  qed
  have same: "\<forall>i j. i < length calls \<longrightarrow> j < length calls \<longrightarrow> calls ! i = calls ! j
         \<longrightarrow> fst (serve calls tbl) ! i = fst (serve calls tbl) ! j"
    unfolding run by simp
  from run same qc_table_unchanged [of w tbl rq] show ?thesis by blast
qed

theorem C9_stateless_witness:
  "calls0 ! 0 = calls0 ! 2
   \<and> fst (serve calls0 species_coeffs) ! 0 = fst (serve calls0 species_coeffs) ! 2
   \<and> snd (serve calls0 species_coeffs) = species_coeffs
   \<and> snd (snd (qc world0 species_coeffs (rq_trunk None))) = species_coeffs"
proof -
  have l: "(0::nat) < length calls0" "(2::nat) < length calls0" and e: "calls0 ! 0 = calls0 ! 2"
    by (simp_all add: calls0_def)
  from C9_stateless_and_table_unchanged [of calls0 species_coeffs world0 "rq_trunk None"] l e
  show ?thesis by simp
qed

end
